theory Spec2Isabelle
  imports Main "HOL-Library.Word"
begin

unbundle bit_operations_syntax

section \<open>The object model (WasmObject.h)\<close>

text \<open>
  The model follows \<^verbatim>\<open>llvm/lib/ObjCopy/wasm/WasmObject.cpp\<close>, \<^verbatim>\<open>WasmObject.h\<close> and
  \<^verbatim>\<open>WasmReader.cpp\<close>. A \<^verbatim>\<open>std::vector\<close> is a list, \<^verbatim>\<open>size_t\<close> positions are
  natural numbers, \<^verbatim>\<open>uint8_t\<close>, \<^verbatim>\<open>uint32_t\<close> and \<^verbatim>\<open>uint64_t\<close> values are words
  (a \<^verbatim>\<open>size_t\<close> that the code subtracts from is a 64-bit word),
  a \<^verbatim>\<open>StringRef\<close> is a \<open>string\<close> and an \<^verbatim>\<open>ArrayRef<uint8_t>\<close> is a byte list.
  Everything that has no defined result in C++ (reading through the end iterator, indexing
  or erasing beyond the size of a vector, \<^verbatim>\<open>llvm_unreachable\<close>, a failing \<^verbatim>\<open>assert\<close>,
  \<^verbatim>\<open>report_fatal_error\<close>) and every error returned by the reader is a value of
  \<open>failure\<close>; a function that can reach one returns \<open>failure + 'a\<close>.
  The \<^verbatim>\<open>printf\<close> calls only write diagnostics to the standard output and are not modelled.
\<close>

type_synonym u8 = "8 word"
type_synonym u32 = "32 word"
type_synonym u64 = "64 word"

datatype failure =
    EndIteratorDereferenced
  | SectionIndexOutOfBounds
  | EraseOutOfBounds
  | UnexpectedKind
  | AssertionFailed
  | CopyBeyondSize
  | EmptyStackTop
  | FatalMalformedLEB
  | FatalLEBOutside32Bit
  | InvalidSectionType
  | RelocSectionIndexOutOfBounds

record Section =
  SectionType :: u8
  HeaderSecSizeEncodingLen :: "u8 option"
  Name :: string
  Contents :: "u8 list"
  RelocationSectionIdx :: "u32 option"

text \<open>
  Modelled from the spec: the symbol record \<^verbatim>\<open>llvm::wasm::WasmSymbolInfo\<close> with its
  \<^verbatim>\<open>WasmDataReference\<close>, the data segment, the init function, the linking data and the
  header are declared in \<^verbatim>\<open>llvm/BinaryFormat/Wasm.h\<close> and \<^verbatim>\<open>llvm/Object/Wasm.h\<close>, which
  are not among the sources. The records below have the fields that the sources read and
  write, with the field types of the data model of the spec (kind, flags, elementIndex,
  name, and dataRef with segment index, byte offset and byte size). The sources read and
  write the element index and the data reference of a symbol as two members, and the
  record keeps them as two fields. The name fields of the symbol and of the data segment
  are \<open>SymName\<close> and \<open>SegName\<close> (\<^verbatim>\<open>Name\<close> in the source).
\<close>

record WasmDataReference =
  Segment :: u32
  Offset :: u64
  Size :: u64

record WasmSymbolInfo =
  SymName :: string
  Kind :: u8
  Flags :: u32
  ElementIndex :: u32
  DataRef :: WasmDataReference

record WasmSymbol =
  Info :: WasmSymbolInfo

record WasmDataSegment =
  SegName :: string
  Alignment :: u32
  LinkingFlags :: u32

record WasmSegment =
  SectionOffset :: u32
  Data :: WasmDataSegment

record WasmInitFunc =
  Priority :: u32
  Symbol :: u32

record WasmLinkingData =
  LinkingVersion :: u32
  InitFunctions :: "WasmInitFunc list"
  Comdats :: "string list"

record WasmObjectHeader =
  Magic :: string
  Version :: u32

text \<open>
  \<open>LinkingSection\<close> is a pointer into the storage of \<open>OpaqueSections\<close>: the model keeps the
  position it points to. \<open>DataSegments\<close> is the member that \<^verbatim>\<open>finalizeLinking\<close> and
  \<^verbatim>\<open>Reader::create\<close> use.
\<close>

record Object =
  Header :: WasmObjectHeader
  Symbols :: "WasmSymbol list"
  OpaqueSections :: "Section list"
  LinkingData :: WasmLinkingData
  LinkingSection :: "nat option"
  DataSegments :: "WasmSegment list"
  OwnedContents :: "u8 list list"

text \<open>
  Modelled from the spec: the symbol kinds, the symbol flag bits and the subsection kind tags
  are constants of \<^verbatim>\<open>llvm/BinaryFormat/Wasm.h\<close> (not among the sources), fixed by the
  external linking-metadata convention, whose values they have here. The statements below
  depend on them only through the cases of the \<^verbatim>\<open>switch\<close> statements being distinct and
  through the bytes shown in the examples.
\<close>

definition WASM_SYMBOL_TYPE_FUNCTION :: u8 where "WASM_SYMBOL_TYPE_FUNCTION = 0"
definition WASM_SYMBOL_TYPE_DATA :: u8 where "WASM_SYMBOL_TYPE_DATA = 1"
definition WASM_SYMBOL_TYPE_GLOBAL :: u8 where "WASM_SYMBOL_TYPE_GLOBAL = 2"
definition WASM_SYMBOL_TYPE_SECTION :: u8 where "WASM_SYMBOL_TYPE_SECTION = 3"
definition WASM_SYMBOL_TYPE_TAG :: u8 where "WASM_SYMBOL_TYPE_TAG = 4"
definition WASM_SYMBOL_TYPE_TABLE :: u8 where "WASM_SYMBOL_TYPE_TABLE = 5"

definition WASM_SYMBOL_UNDEFINED :: u32 where "WASM_SYMBOL_UNDEFINED = 0x10"
definition WASM_SYMBOL_EXPLICIT_NAME :: u32 where "WASM_SYMBOL_EXPLICIT_NAME = 0x40"

definition WASM_SEGMENT_INFO :: u8 where "WASM_SEGMENT_INFO = 5"
definition WASM_INIT_FUNCS :: u8 where "WASM_INIT_FUNCS = 6"
definition WASM_COMDAT_INFO :: u8 where "WASM_COMDAT_INFO = 7"
definition WASM_SYMBOL_TABLE :: u8 where "WASM_SYMBOL_TABLE = 8"

definition isTypeSection :: "WasmSymbol \<Rightarrow> bool" where
  "isTypeSection WS = (Kind (Info WS) = WASM_SYMBOL_TYPE_SECTION)"

definition addSectionWithOwnedContents :: "Section \<Rightarrow> u8 list \<Rightarrow> Object \<Rightarrow> Object" where
  "addSectionWithOwnedContents NewSection Content Obj =
     Obj\<lparr>OpaqueSections := OpaqueSections Obj @ [NewSection],
         OwnedContents := OwnedContents Obj @ [Content]\<rparr>"

section \<open>Object::removeSections\<close>

subsection \<open>The algorithms of the standard library that it calls\<close>

text \<open>
  An iterator into \<open>MarkedSections\<close> is its position; \<open>end()\<close> is the length of the list.
  \<open>upper_bound\<close> is the position of the first element greater than the value,
  \<open>lower_bound\<close> of the first element not less than it, \<open>binary_search\<close> is defined from
  \<open>lower_bound\<close> as in the standard library, and \<open>distance First Last\<close> is \<open>Last - First\<close>,
  a signed number.
\<close>

definition upper_bound :: "nat list \<Rightarrow> nat \<Rightarrow> nat" where
  "upper_bound xs v = length (takeWhile (\<lambda>m. \<not> v < m) xs)"

definition lower_bound :: "nat list \<Rightarrow> nat \<Rightarrow> nat" where
  "lower_bound xs v = length (takeWhile (\<lambda>m. m < v) xs)"

definition binary_search :: "nat list \<Rightarrow> nat \<Rightarrow> bool" where
  "binary_search xs v =
     (let First = lower_bound xs v in First \<noteq> length xs \<and> \<not> v < xs ! First)"

definition distance :: "nat \<Rightarrow> nat \<Rightarrow> int" where
  "distance First Last = int Last - int First"

definition erase :: "'a list \<Rightarrow> nat \<Rightarrow> failure + 'a list" where
  "erase xs I = (if I < length xs then Inr (take I xs @ drop (Suc I) xs) else Inl EraseOutOfBounds)"

fun eraseAll :: "nat list \<Rightarrow> 'a list \<Rightarrow> failure + 'a list" where
  "eraseAll [] xs = Inr xs"
| "eraseAll (I # Is) xs = (case erase xs I of Inl f \<Rightarrow> Inl f | Inr xs' \<Rightarrow> eraseAll Is xs')"

subsection \<open>Marking (lines 44 to 66)\<close>

fun markLoop :: "(Section \<Rightarrow> bool) \<Rightarrow> Section list \<Rightarrow> nat \<Rightarrow> nat list" where
  "markLoop ToRemove [] I = []"
| "markLoop ToRemove (S # rest) I =
     (if ToRemove S
      then I # (case RelocationSectionIdx S of Some R \<Rightarrow> [unat R] | None \<Rightarrow> [])
             @ markLoop ToRemove rest (I + 1)
      else markLoop ToRemove rest (I + 1))"

definition MarkedSections :: "(Section \<Rightarrow> bool) \<Rightarrow> Section list \<Rightarrow> nat list" where
  "MarkedSections ToRemove Secs = remdups_adj (sort (markLoop ToRemove Secs 0))"

subsection \<open>Patching the symbols (lines 68 to 106)\<close>

text \<open>
  Line 79 and line 100: \<^verbatim>\<open>ElementIndex -= std::distance(MarkedSections.end(), Upper)\<close>.
  The difference is computed in \<^verbatim>\<open>ptrdiff_t\<close> and stored back into the \<^verbatim>\<open>uint32_t\<close>.
\<close>

definition renumber :: "nat list \<Rightarrow> u32 \<Rightarrow> u32" where
  "renumber Marked E =
     E - word_of_int (distance (length Marked) (upper_bound Marked (unat E)))"

definition HeaderSize :: "Section \<Rightarrow> u64" where
  "HeaderSize S = (case HeaderSecSizeEncodingLen S of Some h \<Rightarrow> ucast h | None \<Rightarrow> 5)"

text \<open>
  The loop \<^verbatim>\<open>for (size_t I = ...; I < MarkedSections.size(); I++)\<close> of lines 80 to 86
  and 90 to 96, from a given start; \<open>N\<close> is \<^verbatim>\<open>MarkedSections.size()\<close>.
\<close>

function patchOffset :: "Section list \<Rightarrow> nat \<Rightarrow> nat \<Rightarrow> u64 \<Rightarrow> failure + u64" where
  "patchOffset Secs I N Off =
     (if I < N
      then (if I < length Secs
            then patchOffset Secs (I + 1) N
                   (Off - (of_nat (length (Contents (Secs ! I))) - HeaderSize (Secs ! I)))
            else Inl SectionIndexOutOfBounds)
      else Inr Off)"
  by pat_completeness auto
termination
  by (relation "measure (\<lambda>(Secs, I, N, Off). N - I)") auto

text \<open>
  The loop starts at \<^verbatim>\<open>*Upper\<close>: reading through \<open>Upper\<close> when it is the end iterator has no
  defined result.
\<close>

definition patchDataRefOffset ::
  "nat list \<Rightarrow> Section list \<Rightarrow> nat \<Rightarrow> WasmSymbolInfo \<Rightarrow> failure + WasmSymbolInfo" where
  "patchDataRefOffset Marked Secs Upper SymInfo =
     (if Upper = length Marked then Inl EndIteratorDereferenced
      else case patchOffset Secs (Marked ! Upper) (length Marked) (Offset (DataRef SymInfo)) of
             Inl f \<Rightarrow> Inl f
           | Inr Off \<Rightarrow> Inr (SymInfo\<lparr>DataRef := (DataRef SymInfo)\<lparr>Offset := Off\<rparr>\<rparr>))"

definition patchSymbol :: "nat list \<Rightarrow> Section list \<Rightarrow> WasmSymbol \<Rightarrow> failure + WasmSymbol" where
  "patchSymbol Marked Secs Sym =
     (let SymInfo = Info Sym;
          Upper = upper_bound Marked (unat (ElementIndex SymInfo))
      in if Kind SymInfo = WASM_SYMBOL_TYPE_FUNCTION \<or> Kind SymInfo = WASM_SYMBOL_TYPE_GLOBAL
            \<or> Kind SymInfo = WASM_SYMBOL_TYPE_TAG \<or> Kind SymInfo = WASM_SYMBOL_TYPE_TABLE
         then (case patchDataRefOffset Marked Secs Upper
                      (SymInfo\<lparr>ElementIndex := renumber Marked (ElementIndex SymInfo)\<rparr>) of
                 Inl f \<Rightarrow> Inl f
               | Inr SymInfo' \<Rightarrow> Inr (Sym\<lparr>Info := SymInfo'\<rparr>))
         else if Kind SymInfo = WASM_SYMBOL_TYPE_DATA
         then (if Flags SymInfo AND WASM_SYMBOL_UNDEFINED = 0
               then (case patchDataRefOffset Marked Secs Upper SymInfo of
                       Inl f \<Rightarrow> Inl f
                     | Inr SymInfo' \<Rightarrow> Inr (Sym\<lparr>Info := SymInfo'\<rparr>))
               else Inr Sym)
         else if Kind SymInfo = WASM_SYMBOL_TYPE_SECTION
         then Inr (Sym\<lparr>Info := SymInfo\<lparr>ElementIndex := renumber Marked (ElementIndex SymInfo)\<rparr>\<rparr>)
         else Inl UnexpectedKind)"

fun patchSymbols :: "nat list \<Rightarrow> Section list \<Rightarrow> WasmSymbol list \<Rightarrow> failure + WasmSymbol list" where
  "patchSymbols Marked Secs [] = Inr []"
| "patchSymbols Marked Secs (Sym # rest) =
     (case patchSymbol Marked Secs Sym of
        Inl f \<Rightarrow> Inl f
      | Inr Sym' \<Rightarrow>
          (case patchSymbols Marked Secs rest of
             Inl f \<Rightarrow> Inl f
           | Inr rest' \<Rightarrow> Inr (Sym' # rest')))"

subsection \<open>Removing the sections and the section symbols (lines 108 to 125)\<close>

fun markSymbols :: "nat list \<Rightarrow> WasmSymbol list \<Rightarrow> nat \<Rightarrow> nat list" where
  "markSymbols Marked [] I = []"
| "markSymbols Marked (WS # rest) I =
     (if isTypeSection WS \<and> binary_search Marked (unat (ElementIndex (Info WS)))
      then I # markSymbols Marked rest (I + 1)
      else markSymbols Marked rest (I + 1))"

definition removeSections :: "(Section \<Rightarrow> bool) \<Rightarrow> Object \<Rightarrow> failure + Object" where
  "removeSections ToRemove Obj =
     (let Marked = MarkedSections ToRemove (OpaqueSections Obj)
      in if Marked = [] then Inr Obj
         else case patchSymbols Marked (OpaqueSections Obj) (Symbols Obj) of
                Inl f \<Rightarrow> Inl f
              | Inr Syms \<Rightarrow>
                  (case eraseAll (rev Marked) (OpaqueSections Obj) of
                     Inl f \<Rightarrow> Inl f
                   | Inr Secs \<Rightarrow>
                       (case eraseAll (rev (markSymbols Marked Syms 0)) Syms of
                          Inl f \<Rightarrow> Inl f
                        | Inr Syms' \<Rightarrow>
                            Inr (Obj\<lparr>Symbols := Syms', OpaqueSections := Secs\<rparr>))))"

section \<open>The writer of the linking section\<close>

definition bindF :: "failure + 'a \<Rightarrow> ('a \<Rightarrow> failure + 'b) \<Rightarrow> failure + 'b" where
  "bindF m f = (case m of Inl e \<Rightarrow> Inl e | Inr x \<Rightarrow> f x)"

subsection \<open>LEB128\<close>

text \<open>
  Modelled from the spec: \<^verbatim>\<open>encodeULEB128\<close> of \<^verbatim>\<open>llvm/Support/LEB128.h\<close>, which is
  not among the sources (\<open>encodeUnsignedVarint(value, minWidthBytes)\<close> of the spec): the
  minimal little-endian base-128 encoding, seven payload bits per byte and the continuation
  bit on every byte but the last, then continuation bytes with zero payload and a final zero
  byte until \<open>PadTo\<close> bytes are produced. \<open>Count\<close> is the number of bytes emitted before.
\<close>

function encodeULEB128_loop :: "u64 \<Rightarrow> nat \<Rightarrow> nat \<Rightarrow> u8 list" where
  "encodeULEB128_loop Value Count PadTo =
     (if drop_bit 7 Value \<noteq> 0
      then (ucast (Value AND 0x7f) OR 0x80) # encodeULEB128_loop (drop_bit 7 Value) (Count + 1) PadTo
      else [if Count + 1 < PadTo then ucast (Value AND 0x7f) OR 0x80 else ucast (Value AND 0x7f)])"
  by pat_completeness auto
termination
proof (relation "measure (\<lambda>(Value, Count, PadTo). unat Value)")
  show "wf (measure (\<lambda>(Value :: u64, Count :: nat, PadTo :: nat). unat Value))"
    by simp
next
  fix Value :: u64 and Count PadTo :: nat
  assume nz: "drop_bit 7 Value \<noteq> 0"
  have e: "unat (drop_bit 7 Value) = unat Value div 128"
    by (simp add: drop_bit_eq_div unat_div)
  from nz have "unat (drop_bit 7 Value) \<noteq> 0"
    using unat_eq_0 by blast
  with e have "unat Value div 128 \<noteq> 0" by simp
  then have "unat Value \<noteq> 0" by auto
  then have "unat Value div 128 < unat Value" by simp
  with e show "((drop_bit 7 Value, Count + 1, PadTo), (Value, Count, PadTo))
             \<in> measure (\<lambda>(Value, Count, PadTo). unat Value)"
    by simp
qed

definition encodeULEB128 :: "u64 \<Rightarrow> nat \<Rightarrow> u8 list" where
  "encodeULEB128 Value PadTo =
     (let bs = encodeULEB128_loop Value 0 PadTo; Count = length bs
      in if Count < PadTo then bs @ replicate (PadTo - 1 - Count) 0x80 @ [0x00] else bs)"

subsection \<open>class SectionWriter (lines 134 to 191)\<close>

record SectionWriter =
  Buffer :: "u8 list"
  Subsections :: "nat list"
  Cursor :: nat

text \<open>
  \<open>resize\<close> is \<^verbatim>\<open>std::vector::resize\<close> (new elements are zero). \<open>store\<close> is a write of
  bytes through the raw pointer \<^verbatim>\<open>Buffer.data() + Off\<close>. \<^verbatim>\<open>writeULEB128\<close> makes room
  for ten bytes before it stores an encoding, and an encoding has at most ten bytes (lemma
  \<open>length_encodeULEB128_le\<close> below). \<open>insertAt\<close> is
  \<^verbatim>\<open>Buffer.insert(Buffer.begin() + Pos, ...)\<close>, called with the cursor, which is never
  after the end of the buffer (lemmas \<open>writeULEB128_wf\<close>, \<open>writeString_wf\<close> and
  \<open>startSubsection_wf\<close> below).
\<close>

definition resize :: "nat \<Rightarrow> u8 list \<Rightarrow> u8 list" where
  "resize n xs = take n xs @ replicate (n - length xs) 0"

definition store :: "u8 list \<Rightarrow> nat \<Rightarrow> u8 list \<Rightarrow> u8 list" where
  "store Buf Off bs = take Off Buf @ bs @ drop (Off + length bs) Buf"

definition insertAt :: "u8 list \<Rightarrow> nat \<Rightarrow> u8 list \<Rightarrow> u8 list" where
  "insertAt Buf Pos bs = take Pos Buf @ bs @ drop Pos Buf"

definition initialWriter :: SectionWriter where
  "initialWriter = \<lparr>Buffer = [], Subsections = [], Cursor = 0\<rparr>"

definition writeULEB128 :: "u64 \<Rightarrow> nat \<Rightarrow> SectionWriter \<Rightarrow> SectionWriter" where
  "writeULEB128 Value PadTo W =
     (let Buf = resize (Cursor W + 10) (Buffer W);
          bs = encodeULEB128 Value PadTo
      in W\<lparr>Buffer := store Buf (Cursor W) bs, Cursor := Cursor W + length bs\<rparr>)"

definition insertULEB128 :: "u64 \<Rightarrow> nat \<Rightarrow> SectionWriter \<Rightarrow> SectionWriter" where
  "insertULEB128 Value Off W = W\<lparr>Buffer := store (Buffer W) Off (encodeULEB128 Value 0)\<rparr>"

definition writeVaruint32 :: "u32 \<Rightarrow> SectionWriter \<Rightarrow> failure + SectionWriter" where
  "writeVaruint32 Value W =
     (if Value \<le> 0x7fffffff then Inr (writeULEB128 (ucast Value) 0 W) else Inl AssertionFailed)"

definition writeBytes :: "u8 list \<Rightarrow> SectionWriter \<Rightarrow> SectionWriter" where
  "writeBytes Bytes W =
     W\<lparr>Buffer := insertAt (Buffer W) (Cursor W) Bytes, Cursor := Cursor W + length Bytes\<rparr>"

definition bytes :: "string \<Rightarrow> u8 list" where
  "bytes Str = map of_char Str"

definition writeString :: "string \<Rightarrow> SectionWriter \<Rightarrow> SectionWriter" where
  "writeString Str W = writeBytes (bytes Str) W"

definition startSubsection :: "u8 \<Rightarrow> SectionWriter \<Rightarrow> SectionWriter" where
  "startSubsection K W =
     writeULEB128 0 5
       (W\<lparr>Buffer := Buffer W @ [K], Subsections := (Cursor W + 1) # Subsections W,
           Cursor := Cursor W + 1\<rparr>)"

definition endSubsection :: "SectionWriter \<Rightarrow> failure + (nat \<times> SectionWriter)" where
  "endSubsection W =
     (case Subsections W of
        [] \<Rightarrow> Inl EmptyStackTop
      | Off # rest \<Rightarrow>
          Inr (Cursor W - Off,
               (insertULEB128 (of_nat (Cursor W - Off)) Off W)\<lparr>Subsections := rest\<rparr>))"

definition finalize :: "SectionWriter \<Rightarrow> failure + u8 list" where
  "finalize W =
     (if Subsections W = [] then Inr (resize (Cursor W) (Buffer W)) else Inl AssertionFailed)"

subsection \<open>Object::finalizeLinking (lines 195 to 280)\<close>

text \<open>The body of the loop over the symbols, lines 209 to 238.\<close>

definition writeSymbol :: "WasmSymbol \<Rightarrow> SectionWriter \<Rightarrow> failure + SectionWriter" where
  "writeSymbol Sym W =
     (let SymInfo = Info Sym;
          W1 = writeULEB128 (ucast (Kind SymInfo)) 0 W;
          W2 = writeULEB128 (ucast (Flags SymInfo)) 0 W1
      in if Kind SymInfo = WASM_SYMBOL_TYPE_FUNCTION \<or> Kind SymInfo = WASM_SYMBOL_TYPE_GLOBAL
            \<or> Kind SymInfo = WASM_SYMBOL_TYPE_TAG \<or> Kind SymInfo = WASM_SYMBOL_TYPE_TABLE
         then (let W3 = writeULEB128 (ucast (ElementIndex SymInfo)) 0 W2
               in if Flags SymInfo AND WASM_SYMBOL_UNDEFINED = 0
                     \<or> Flags SymInfo AND WASM_SYMBOL_EXPLICIT_NAME \<noteq> 0
                  then Inr (writeString (SymName SymInfo) W3)
                  else Inr W3)
         else if Kind SymInfo = WASM_SYMBOL_TYPE_DATA
         then (let W3 = writeString (SymName SymInfo) W2
               in if Flags SymInfo AND WASM_SYMBOL_UNDEFINED = 0
                  then Inr (writeULEB128 (Size (DataRef SymInfo)) 0
                             (writeULEB128 (Offset (DataRef SymInfo)) 0
                               (writeULEB128 (ucast (Segment (DataRef SymInfo))) 0 W3)))
                  else Inr W3)
         else if Kind SymInfo = WASM_SYMBOL_TYPE_SECTION
         then Inr (writeULEB128 (ucast (ElementIndex SymInfo)) 0 W2)
         else Inl UnexpectedKind)"

fun writeSymbols :: "WasmSymbol list \<Rightarrow> SectionWriter \<Rightarrow> failure + SectionWriter" where
  "writeSymbols [] W = Inr W"
| "writeSymbols (Sym # rest) W = bindF (writeSymbol Sym W) (writeSymbols rest)"

fun writeSegments :: "WasmSegment list \<Rightarrow> SectionWriter \<Rightarrow> SectionWriter" where
  "writeSegments [] W = W"
| "writeSegments (Seg # rest) W =
     writeSegments rest
       (writeULEB128 (ucast (LinkingFlags (Data Seg))) 0
         (writeULEB128 (ucast (Alignment (Data Seg))) 0
           (writeString (SegName (Data Seg)) W)))"

fun writeInitFuncs :: "WasmInitFunc list \<Rightarrow> SectionWriter \<Rightarrow> SectionWriter" where
  "writeInitFuncs [] W = W"
| "writeInitFuncs (InitFunc # rest) W =
     writeInitFuncs rest
       (writeULEB128 (ucast (Symbol InitFunc)) 0
         (writeULEB128 (ucast (Priority InitFunc)) 0 W))"

fun writeComdats :: "string list \<Rightarrow> SectionWriter \<Rightarrow> SectionWriter" where
  "writeComdats [] W = W"
| "writeComdats (C # rest) W =
     writeComdats rest
       (writeULEB128 (of_nat (length C)) 0
         (writeULEB128 0 0
           (writeString C W)))"

definition closeSubsection :: "SectionWriter \<Rightarrow> failure + SectionWriter" where
  "closeSubsection W = bindF (endSubsection W) (\<lambda>(n, W'). Inr W')"

definition writeSymbolTable :: "Object \<Rightarrow> SectionWriter \<Rightarrow> failure + SectionWriter" where
  "writeSymbolTable Obj W =
     (if Symbols Obj \<noteq> []
      then bindF (writeSymbols (Symbols Obj)
                   (writeULEB128 (of_nat (length (Symbols Obj))) 0
                     (startSubsection WASM_SYMBOL_TABLE W)))
             closeSubsection
      else Inr W)"

definition writeSegmentInfo :: "Object \<Rightarrow> SectionWriter \<Rightarrow> failure + SectionWriter" where
  "writeSegmentInfo Obj W =
     (if DataSegments Obj \<noteq> []
      then bindF (writeVaruint32 (of_nat (length (DataSegments Obj)))
                   (startSubsection WASM_SEGMENT_INFO W))
             (\<lambda>W'. closeSubsection (writeSegments (DataSegments Obj) W'))
      else Inr W)"

definition writeInitFunctions :: "Object \<Rightarrow> SectionWriter \<Rightarrow> failure + SectionWriter" where
  "writeInitFunctions Obj W =
     (if InitFunctions (LinkingData Obj) \<noteq> []
      then closeSubsection
             (writeInitFuncs (InitFunctions (LinkingData Obj))
               (writeULEB128 (of_nat (length (InitFunctions (LinkingData Obj)))) 0
                 (startSubsection WASM_INIT_FUNCS W)))
      else Inr W)"

definition writeComdatInfo :: "Object \<Rightarrow> SectionWriter \<Rightarrow> failure + SectionWriter" where
  "writeComdatInfo Obj W =
     (if Comdats (LinkingData Obj) \<noteq> []
      then closeSubsection
             (writeComdats (Comdats (LinkingData Obj))
               (writeULEB128 (of_nat (length (Comdats (LinkingData Obj)))) 0
                 (startSubsection WASM_COMDAT_INFO W)))
      else Inr W)"

text \<open>
  \<open>WasmMetadataVersion\<close> is the version constant of \<^verbatim>\<open>llvm/BinaryFormat/Wasm.h\<close> (not among
  the sources); it is a parameter here. The method is a member function of the object: the
  model returns the bytes together with the object as the call leaves it.
\<close>

definition finalizeLinking :: "u32 \<Rightarrow> Object \<Rightarrow> failure + (u8 list \<times> Object)" where
  "finalizeLinking WasmMetadataVersion Obj =
     bindF (writeVaruint32 WasmMetadataVersion initialWriter) (\<lambda>W0.
     bindF (writeSymbolTable Obj W0) (\<lambda>W1.
     bindF (writeSegmentInfo Obj W1) (\<lambda>W2.
     bindF (writeInitFunctions Obj W2) (\<lambda>W3.
     bindF (writeComdatInfo Obj W3) (\<lambda>W4.
     bindF (finalize W4) (\<lambda>Bytes. Inr (Bytes, Obj)))))))"

section \<open>Reader::create (WasmReader.cpp)\<close>

text \<open>
  Modelled from the spec: the decoded module (\<^verbatim>\<open>object::WasmObjectFile\<close>) is an external
  collaborator; the record has what \<^verbatim>\<open>create\<close> reads from it: the header, the symbols,
  the sections with kind, name, content and the width of the size field, the parsed linking
  metadata and the parsed data-segment list.
\<close>

record WasmSection =
  Type :: u32
  WSHeaderSecSizeEncodingLen :: "u8 option"
  WSName :: string
  Content :: "u8 list"

record WasmObjectFile =
  getHeader :: WasmObjectHeader
  symbols :: "WasmSymbol list"
  sections :: "WasmSection list"
  linkingData :: WasmLinkingData
  dataSegments :: "WasmSegment list"

definition WASM_SEC_CUSTOM :: u32 where "WASM_SEC_CUSTOM = 0"
definition WASM_SEC_LAST_KNOWN :: u32 where "WASM_SEC_LAST_KNOWN = 13"

text \<open>
  Modelled from the spec: \<^verbatim>\<open>decodeULEB128\<close> of \<^verbatim>\<open>llvm/Support/LEB128.h\<close>
  (\<open>decodeUnsignedVarint\<close> of the spec), which fails when the input is exhausted before a
  terminating byte or when the value does not fit into 64 bits.
\<close>

fun decodeULEB128 :: "u8 list \<Rightarrow> nat \<Rightarrow> u64 \<Rightarrow> failure + u64" where
  "decodeULEB128 [] Shift Value = Inl FatalMalformedLEB"
| "decodeULEB128 (b # rest) Shift Value =
     (let Slice = (ucast (b AND 0x7f) :: u64)
      in if Shift \<ge> 63 \<and> ((Shift = 63 \<and> drop_bit Shift (push_bit Shift Slice) \<noteq> Slice)
                         \<or> (Shift > 63 \<and> Slice \<noteq> 0))
         then Inl FatalMalformedLEB
         else if b \<ge> 128 then decodeULEB128 rest (Shift + 7) (Value + push_bit Shift Slice)
         else Inr (Value + push_bit Shift Slice))"

definition readULEB128 :: "u8 list \<Rightarrow> failure + u64" where
  "readULEB128 Bytes = decodeULEB128 Bytes 0 0"

definition readVaruint32 :: "u8 list \<Rightarrow> failure + u32" where
  "readVaruint32 Bytes =
     bindF (readULEB128 Bytes)
       (\<lambda>Value. if Value > 0xFFFFFFFF then Inl FatalLEBOutside32Bit else Inr (ucast Value))"

definition starts_with :: "string \<Rightarrow> string \<Rightarrow> bool" where
  "starts_with Str Prefix = (take (length Prefix) Str = Prefix)"

text \<open>
  The body of the loop over the sections, lines 154 to 189 of the reader.
  \<open>sectionTypeToString\<close> is a function of \<^verbatim>\<open>llvm/BinaryFormat/Wasm.h\<close> (not among the
  sources) and a parameter here.
\<close>

definition linkRelocSection :: "WasmSection \<Rightarrow> Object \<Rightarrow> failure + Object" where
  "linkRelocSection WS Obj =
     (if Type WS = WASM_SEC_CUSTOM \<and> starts_with (WSName WS) ''reloc.''
      then bindF (readVaruint32 (Content WS))
             (\<lambda>ReferencedSectionIdx.
                if unat ReferencedSectionIdx \<ge> length (OpaqueSections Obj)
                then Inl RelocSectionIndexOutOfBounds
                else Inr (Obj\<lparr>OpaqueSections :=
                            (OpaqueSections Obj)[unat ReferencedSectionIdx :=
                              (OpaqueSections Obj ! unat ReferencedSectionIdx)
                                \<lparr>RelocationSectionIdx :=
                                   Some (of_nat (length (OpaqueSections Obj)))\<rparr>]\<rparr>))
      else Inr Obj)"

definition readSection ::
  "(u32 \<Rightarrow> string) \<Rightarrow> WasmObjectFile \<Rightarrow> WasmSection \<Rightarrow> Object \<Rightarrow> failure + Object" where
  "readSection sectionTypeToString WasmObj WS Obj =
     (if Type WS > WASM_SEC_LAST_KNOWN then Inl InvalidSectionType
      else bindF (linkRelocSection WS Obj)
        (\<lambda>Obj1.
           let ReaderSec = \<lparr>SectionType = ucast (Type WS),
                            HeaderSecSizeEncodingLen = WSHeaderSecSizeEncodingLen WS,
                            Name = WSName WS, Contents = Content WS,
                            RelocationSectionIdx = None\<rparr>;
               Obj2 = (if Type WS = WASM_SEC_CUSTOM \<and> WSName WS = ''linking''
                       then Obj1\<lparr>LinkingSection := Some (length (OpaqueSections Obj1)),
                                 LinkingData := linkingData WasmObj\<rparr>
                       else Obj1);
               ReaderSec' = (if ucast (SectionType ReaderSec) \<noteq> WASM_SEC_CUSTOM
                             then ReaderSec\<lparr>Name := sectionTypeToString
                                                       (ucast (SectionType ReaderSec))\<rparr>
                             else ReaderSec)
           in Inr (Obj2\<lparr>OpaqueSections := OpaqueSections Obj2 @ [ReaderSec']\<rparr>)))"

fun readSections ::
  "(u32 \<Rightarrow> string) \<Rightarrow> WasmObjectFile \<Rightarrow> WasmSection list \<Rightarrow> Object \<Rightarrow> failure + Object" where
  "readSections sectionTypeToString WasmObj [] Obj = Inr Obj"
| "readSections sectionTypeToString WasmObj (WS # rest) Obj =
     bindF (readSection sectionTypeToString WasmObj WS Obj)
       (readSections sectionTypeToString WasmObj rest)"

text \<open>
  Lines 192 and 193 of the reader: \<^verbatim>\<open>DataSegments.reserve(n)\<close> leaves the size of the
  vector at zero, and \<^verbatim>\<open>llvm::copy(WasmObj.dataSegments(), Obj->DataSegments.begin())\<close>
  assigns through \<open>begin()\<close>. With nothing to copy this does nothing. With a segment to copy
  it writes beyond the size of the vector, which has no defined result (and the size of
  the vector, which is all that \<^verbatim>\<open>finalizeLinking\<close> looks at, would still be zero).
\<close>

definition copyDataSegments :: "WasmSegment list \<Rightarrow> Object \<Rightarrow> failure + Object" where
  "copyDataSegments Segs Obj =
     (if length Segs \<le> length (DataSegments Obj)
      then Inr (Obj\<lparr>DataSegments := Segs @ drop (length Segs) (DataSegments Obj)\<rparr>)
      else Inl CopyBeyondSize)"

definition emptyObject :: Object where
  "emptyObject =
     \<lparr>Header = \<lparr>Magic = [], Version = 0\<rparr>, Symbols = [], OpaqueSections = [],
      LinkingData = \<lparr>LinkingVersion = 0, InitFunctions = [], Comdats = []\<rparr>,
      LinkingSection = None, DataSegments = [], OwnedContents = []\<rparr>"

definition create :: "(u32 \<Rightarrow> string) \<Rightarrow> WasmObjectFile \<Rightarrow> failure + Object" where
  "create sectionTypeToString WasmObj =
     bindF (readSections sectionTypeToString WasmObj (sections WasmObj)
              (emptyObject\<lparr>Header := getHeader WasmObj, Symbols := symbols WasmObj\<rparr>))
       (copyDataSegments (dataSegments WasmObj))"

section \<open>Auxiliary definitions for the statements\<close>

text \<open>
  \<open>written W\<close> is the part of the buffer before the cursor: what \<^verbatim>\<open>finalize\<close> returns
  when nothing more is written. \<open>writerAt pre post ss\<close> is the writer whose buffer holds
  \<open>pre\<close> before the cursor and \<open>post\<close> after it.
\<close>

definition written :: "SectionWriter \<Rightarrow> u8 list" where
  "written W = take (Cursor W) (Buffer W)"

definition writerAt :: "u8 list \<Rightarrow> u8 list \<Rightarrow> nat list \<Rightarrow> SectionWriter" where
  "writerAt pre post ss = \<lparr>Buffer = pre @ post, Subsections = ss, Cursor = length pre\<rparr>"

text \<open>The cursor of a writer never passes the end of its buffer.\<close>

definition wfWriter :: "SectionWriter \<Rightarrow> bool" where
  "wfWriter W = (Cursor W \<le> length (Buffer W))"



text \<open>
  The payload of the Segment Info subsection in the words of the spec: a count, then per
  segment the name as a length-prefixed byte string (an unsigned varint byte count followed
  by the raw bytes), an alignment varint and a flags varint.
\<close>

definition lengthPrefixedString_spec :: "string \<Rightarrow> u8 list" where
  "lengthPrefixedString_spec Str = encodeULEB128 (of_nat (length Str)) 0 @ bytes Str"

definition segmentInfoPayload_spec :: "WasmSegment list \<Rightarrow> u8 list" where
  "segmentInfoPayload_spec Segs =
     encodeULEB128 (of_nat (length Segs)) 0
     @ concat (map (\<lambda>Seg. lengthPrefixedString_spec (SegName (Data Seg))
                           @ encodeULEB128 (ucast (Alignment (Data Seg))) 0
                           @ encodeULEB128 (ucast (LinkingFlags (Data Seg))) 0) Segs)"

text \<open>The bytes that \<^verbatim>\<open>finalizeLinking\<close> writes for one segment, lines 248 to 250.\<close>

definition segmentBytes :: "WasmSegment \<Rightarrow> u8 list" where
  "segmentBytes Seg =
     bytes (SegName (Data Seg))
     @ encodeULEB128 (ucast (Alignment (Data Seg))) 0
     @ encodeULEB128 (ucast (LinkingFlags (Data Seg))) 0"

text \<open>Concrete sections, symbols, objects and modules for the examples.\<close>

definition exSection :: "string \<Rightarrow> u32 option \<Rightarrow> Section" where
  "exSection N R =
     \<lparr>SectionType = 0, HeaderSecSizeEncodingLen = None, Name = N, Contents = [],
      RelocationSectionIdx = R\<rparr>"

definition exSymbol :: "u8 \<Rightarrow> u32 \<Rightarrow> u32 \<Rightarrow> WasmSymbol" where
  "exSymbol K F E =
     \<lparr>Info = \<lparr>SymName = ''f'', Kind = K, Flags = F, ElementIndex = E,
              DataRef = \<lparr>Segment = 1, Offset = 2, Size = 3\<rparr>\<rparr>\<rparr>"

definition exSegment :: WasmSegment where
  "exSegment = \<lparr>SectionOffset = 0, Data = \<lparr>SegName = ''a'', Alignment = 0, LinkingFlags = 0\<rparr>\<rparr>"

definition exObject :: "Section list \<Rightarrow> WasmSymbol list \<Rightarrow> WasmSegment list \<Rightarrow> Object" where
  "exObject Secs Syms Segs =
     emptyObject\<lparr>Symbols := Syms, OpaqueSections := Secs, DataSegments := Segs\<rparr>"

definition exModule :: "WasmSegment list \<Rightarrow> WasmObjectFile" where
  "exModule Segs =
     \<lparr>getHeader = \<lparr>Magic = [], Version = 1\<rparr>, symbols = [], sections = [],
      linkingData = \<lparr>LinkingVersion = 2, InitFunctions = [], Comdats = []\<rparr>,
      dataSegments = Segs\<rparr>"

lemmas removeSections_defs =
  removeSections_def MarkedSections_def patchSymbol_def patchDataRefOffset_def renumber_def
  upper_bound_def lower_bound_def binary_search_def distance_def erase_def isTypeSection_def
  HeaderSize_def exObject_def exSection_def exSymbol_def emptyObject_def
  WASM_SYMBOL_TYPE_FUNCTION_def WASM_SYMBOL_TYPE_GLOBAL_def WASM_SYMBOL_TYPE_TAG_def
  WASM_SYMBOL_TYPE_TABLE_def WASM_SYMBOL_TYPE_DATA_def WASM_SYMBOL_TYPE_SECTION_def
  WASM_SYMBOL_UNDEFINED_def

section \<open>Facts about the marking and the removal\<close>

lemma markLoop_no_match:
  "\<forall>S \<in> set Secs. \<not> ToRemove S \<Longrightarrow> markLoop ToRemove Secs I = []"
  by (induction Secs arbitrary: I) auto

lemma markLoop_complete:
  "i < length Secs \<Longrightarrow> ToRemove (Secs ! i) \<Longrightarrow> I + i \<in> set (markLoop ToRemove Secs I)"
proof (induction Secs arbitrary: I i)
  case Nil
  then show ?case by simp
next
  case (Cons S rest)
  show ?case
  proof (cases i)
    case 0
    with Cons.prems show ?thesis by simp
  next
    case (Suc j)
    with Cons.prems have "j < length rest" and "ToRemove (rest ! j)" by simp_all
    then have "(I + 1) + j \<in> set (markLoop ToRemove rest (I + 1))"
      by (rule Cons.IH)
    with Suc show ?thesis by auto
  qed
qed

lemma MarkedSections_no_match:
  "\<forall>S \<in> set Secs. \<not> ToRemove S \<Longrightarrow> MarkedSections ToRemove Secs = []"
  by (simp add: MarkedSections_def markLoop_no_match)

lemma MarkedSections_complete:
  "i < length Secs \<Longrightarrow> ToRemove (Secs ! i) \<Longrightarrow> i \<in> set (MarkedSections ToRemove Secs)"
  using markLoop_complete [of i Secs ToRemove 0] by (simp add: MarkedSections_def)

lemma sorted_MarkedSections: "sorted (MarkedSections ToRemove Secs)"
  by (simp add: MarkedSections_def)

lemma distinct_remdups_adj_sorted:
  "sorted (xs :: nat list) \<Longrightarrow> distinct (remdups_adj xs)"
  by (induction xs rule: remdups_adj.induct) auto

lemma distinct_MarkedSections: "distinct (MarkedSections ToRemove Secs)"
  by (simp add: MarkedSections_def distinct_remdups_adj_sorted)

lemma removeSections_no_match:
  "\<forall>S \<in> set (OpaqueSections Obj). \<not> ToRemove S \<Longrightarrow> removeSections ToRemove Obj = Inr Obj"
  by (simp add: removeSections_def MarkedSections_no_match)

lemma erase_nth:
  assumes "erase xs k = Inr ys" and "i < length ys"
  shows "ys ! i = (if i < k then xs ! i else xs ! Suc i)"
proof -
  from assms(1) have k: "k < length xs" and ys: "ys = take k xs @ drop (Suc k) xs"
    by (auto simp: erase_def split: if_splits)
  show ?thesis
  proof (cases "i < k")
    case True
    with k ys show ?thesis by (simp add: nth_append)
  next
    case False
    with k ys assms(2) show ?thesis by (simp add: nth_append min_def)
  qed
qed

text \<open>
  Erasing at the positions of a strictly descending list that holds every position of an
  element with property \<open>P\<close> leaves no element with \<open>P\<close>.
\<close>

lemma eraseAll_removes:
  assumes "sorted (rev Is)" and "distinct Is"
    and "\<forall>i < length xs. P (xs ! i) \<longrightarrow> i \<in> set Is"
    and "eraseAll Is xs = Inr ys"
  shows "\<forall>y \<in> set ys. \<not> P y"
  using assms
proof (induction Is arbitrary: xs)
  case Nil
  then show ?case by (auto simp: in_set_conv_nth)
next
  case (Cons k Is)
  from Cons.prems(4) obtain xs' where e: "erase xs k = Inr xs'" and rest: "eraseAll Is xs' = Inr ys"
    by (auto split: sum.splits)
  from e have k: "k < length xs" and len: "length xs' = length xs - 1"
    by (auto simp: erase_def split: if_splits)
  from Cons.prems(1) have s: "sorted (rev Is)" and le: "\<forall>x \<in> set Is. x \<le> k"
    by (simp_all add: sorted_append)
  from Cons.prems(2) have d: "distinct Is" and "k \<notin> set Is"
    by simp_all
  with le have below: "\<forall>x \<in> set Is. x < k"
    by (metis order_le_less)
  have q: "\<forall>i < length xs'. P (xs' ! i) \<longrightarrow> i \<in> set Is"
  proof (intro allI impI)
    fix i assume i: "i < length xs'" and p: "P (xs' ! i)"
    show "i \<in> set Is"
    proof (cases "i < k")
      case True
      with erase_nth [OF e i] p have "P (xs ! i)" by simp
      moreover from i len have "i < length xs" by simp
      ultimately have "i \<in> set (k # Is)" using Cons.prems(3) by blast
      with True show ?thesis by simp
    next
      case False
      with erase_nth [OF e i] p have "P (xs ! Suc i)" by simp
      moreover from i len k have "Suc i < length xs" by simp
      ultimately have "Suc i \<in> set (k # Is)" using Cons.prems(3) by blast
      with False below show ?thesis by auto
    qed
  qed
  show ?case by (rule Cons.IH [OF s d q rest])
qed

lemma removeSections_leaves_no_match:
  assumes "removeSections ToRemove Obj = Inr Obj'"
  shows "\<forall>S \<in> set (OpaqueSections Obj'). \<not> ToRemove S"
proof (cases "MarkedSections ToRemove (OpaqueSections Obj) = []")
  case True
  with assms have "Obj' = Obj" by (simp add: removeSections_def)
  moreover have "\<forall>S \<in> set (OpaqueSections Obj). \<not> ToRemove S"
  proof
    fix S assume "S \<in> set (OpaqueSections Obj)"
    then obtain i where "i < length (OpaqueSections Obj)" and "OpaqueSections Obj ! i = S"
      by (auto simp: in_set_conv_nth)
    with MarkedSections_complete [of i "OpaqueSections Obj" ToRemove] True
    show "\<not> ToRemove S" by auto
  qed
  ultimately show ?thesis by simp
next
  case False
  let ?M = "MarkedSections ToRemove (OpaqueSections Obj)"
  from False assms obtain Secs where er: "eraseAll (rev ?M) (OpaqueSections Obj) = Inr Secs"
    and secs: "OpaqueSections Obj' = Secs"
    by (auto simp: removeSections_def Let_def split: sum.splits)
  have "\<forall>y \<in> set Secs. \<not> ToRemove y"
  proof (rule eraseAll_removes [OF _ _ _ er])
    show "sorted (rev (rev ?M))" by (simp add: sorted_MarkedSections)
    show "distinct (rev ?M)" by (simp add: distinct_MarkedSections)
    show "\<forall>i < length (OpaqueSections Obj). ToRemove (OpaqueSections Obj ! i) \<longrightarrow> i \<in> set (rev ?M)"
      by (simp add: MarkedSections_complete)
  qed
  with secs show ?thesis by simp
qed

text \<open>
  On a sorted list the results of \<open>upper_bound\<close> and \<open>binary_search\<close> are those of the
  standard library: the elements from \<open>upper_bound\<close> on are the elements above the value, and
  \<open>binary_search\<close> is membership.
\<close>

lemma filter_above_sorted:
  "sorted xs \<Longrightarrow> filter (\<lambda>m. v < m) xs = dropWhile (\<lambda>m. \<not> v < m) (xs :: nat list)"
proof (induction xs)
  case Nil
  show ?case by simp
next
  case (Cons x xs)
  show ?case
  proof (cases "v < x")
    case True
    with Cons.prems have "\<forall>m \<in> set xs. v < m" by auto
    then have "filter (\<lambda>m. v < m) xs = xs" by simp
    with True show ?thesis by simp
  next
    case False
    with Cons show ?thesis by simp
  qed
qed

lemma upper_bound_sorted:
  "sorted Marked \<Longrightarrow>
   length Marked = upper_bound Marked v + length (filter (\<lambda>m. v < m) Marked)"
proof -
  assume "sorted Marked"
  then have "length (filter (\<lambda>m. v < m) Marked) = length (dropWhile (\<lambda>m. \<not> v < m) Marked)"
    by (simp add: filter_above_sorted)
  moreover have "length Marked = length (takeWhile (\<lambda>m. \<not> v < m) Marked)
                               + length (dropWhile (\<lambda>m. \<not> v < m) Marked)"
    by (metis length_append takeWhile_dropWhile_id)
  ultimately show ?thesis by (simp add: upper_bound_def)
qed

lemma binary_search_sorted:
  "sorted xs \<Longrightarrow> binary_search xs v \<longleftrightarrow> v \<in> set xs"
proof (induction xs)
  case Nil
  show ?case by (simp add: binary_search_def lower_bound_def)
next
  case (Cons x xs)
  show ?case
  proof (cases "x < v")
    case True
    with Cons show ?thesis by (auto simp: binary_search_def lower_bound_def Let_def)
  next
    case False
    with Cons.prems show ?thesis by (auto simp: binary_search_def lower_bound_def Let_def)
  qed
qed

text \<open>
  What lines 79 and 100 compute. \<open>Upper\<close> is never after \<open>end()\<close>, so the distance from
  \<open>end()\<close> to \<open>Upper\<close> is zero or negative, and subtracting it adds to the index the number
  of marked indices that are greater than the index.
\<close>

lemma renumber_sorted:
  assumes "sorted Marked"
  shows "renumber Marked E = E + of_nat (length (filter (\<lambda>m. unat E < m) Marked))"
proof -
  let ?n = "length (filter (\<lambda>m. unat E < m) Marked)"
  from upper_bound_sorted [OF assms, of "unat E"]
  have "distance (length Marked) (upper_bound Marked (unat E)) = - int ?n"
    by (simp add: distance_def)
  then show ?thesis by (simp add: renumber_def)
qed

lemma renumber_MarkedSections:
  "renumber (MarkedSections ToRemove Secs) E
   = E + of_nat (length (filter (\<lambda>m. unat E < m) (MarkedSections ToRemove Secs)))"
  by (rule renumber_sorted) (rule sorted_MarkedSections)

section \<open>Facts about the writer\<close>

lemma unat_drop_bit_7: "unat (drop_bit 7 (v :: u64)) = unat v div 128"
  by (simp add: drop_bit_eq_div unat_div)

lemma length_encodeULEB128_loop:
  "unat v < 128 ^ Suc k \<Longrightarrow> length (encodeULEB128_loop v c p) \<le> Suc k"
proof (induction k arbitrary: v c)
  case 0
  then have "unat (drop_bit 7 v) = 0" by (simp add: unat_drop_bit_7)
  then have "drop_bit 7 v = 0" by (simp add: unat_eq_0)
  then show ?case by (subst encodeULEB128_loop.simps) simp
next
  case (Suc k)
  show ?case
  proof (cases "drop_bit 7 v = 0")
    case True
    then show ?thesis by (subst encodeULEB128_loop.simps) simp
  next
    case False
    from Suc.prems have "unat (drop_bit 7 v) < 128 ^ Suc k"
      by (simp add: unat_drop_bit_7 less_mult_imp_div_less mult.commute)
    then have "length (encodeULEB128_loop (drop_bit 7 v) (c + 1) p) \<le> Suc k"
      by (rule Suc.IH)
    with False show ?thesis by (subst encodeULEB128_loop.simps) simp
  qed
qed

text \<open>An encoding has at most ten bytes, so it fits into the ten bytes that
  \<^verbatim>\<open>writeULEB128\<close> makes room for.\<close>

lemma length_encodeULEB128_le: "p \<le> 10 \<Longrightarrow> length (encodeULEB128 v p) \<le> 10"
proof -
  assume p: "p \<le> 10"
  have "unat v < 2 ^ 64" using unsigned_less [of v] by simp
  also have "(2 :: nat) ^ 64 \<le> 128 ^ Suc 9" by simp
  finally have "length (encodeULEB128_loop v 0 p) \<le> Suc 9"
    by (rule length_encodeULEB128_loop)
  with p show ?thesis by (simp add: encodeULEB128_def Let_def)
qed

lemma store_in_bounds:
  "Off + length bs \<le> length Buf \<Longrightarrow> length (store Buf Off bs) = length Buf"
  by (simp add: store_def)

lemma encodeULEB128_0: "encodeULEB128 0 0 = [0]"
  by (simp add: encodeULEB128_def)

lemma encodeULEB128_1: "encodeULEB128 1 0 = [1]"
  by (simp add: encodeULEB128_def)

lemma encodeULEB128_2: "encodeULEB128 2 0 = [2]"
  by (simp add: encodeULEB128_def)

lemma encodeULEB128_3: "encodeULEB128 3 0 = [3]"
  by (simp add: encodeULEB128_def)

lemma encodeULEB128_9: "encodeULEB128 9 0 = [9]"
  by (simp add: encodeULEB128_def)


lemma encodeULEB128_0_5: "encodeULEB128 0 5 = [0x80, 0x80, 0x80, 0x80, 0]"
  by (simp add: encodeULEB128_def numeral_eq_Suc)

lemma replicate_numeral_conv: "replicate (numeral k) x = x # replicate (pred_numeral k) x"
  by (simp add: numeral_eq_Suc)

lemma resize_Nil: "resize n [] = replicate n 0"
  by (simp add: resize_def)

lemma resize_0: "resize 0 xs = []"
  by (simp add: resize_def)

lemma resize_Cons_numeral: "resize (numeral k) (x # xs) = x # resize (pred_numeral k) xs"
  by (simp add: resize_def numeral_eq_Suc)

lemma resize_Cons_Suc: "resize (Suc n) (x # xs) = x # resize n xs"
  by (simp add: resize_def)

lemma resize_append: "resize (length pre + n) (pre @ post) = pre @ resize n post"
  by (simp add: resize_def)

lemma initialWriter_at: "initialWriter = writerAt [] [] []"
  by (simp add: initialWriter_def writerAt_def)

lemma written_writerAt: "written (writerAt pre post ss) = pre"
  by (simp add: written_def writerAt_def)

lemma writer_is_writerAt:
  "Cursor W \<le> length (Buffer W) \<Longrightarrow>
   W = writerAt (written W) (drop (Cursor W) (Buffer W)) (Subsections W)"
  by (simp add: written_def writerAt_def min_def)

lemma writeULEB128_at:
  "writeULEB128 v p (writerAt pre post ss)
   = writerAt (pre @ encodeULEB128 v p) (drop (length (encodeULEB128 v p)) (resize 10 post)) ss"
  by (simp add: writeULEB128_def writerAt_def Let_def resize_append store_def)

lemma writeVaruint32_at:
  "v \<le> 0x7fffffff \<Longrightarrow>
   writeVaruint32 v (writerAt pre post ss) = Inr (writeULEB128 (ucast v) 0 (writerAt pre post ss))"
  by (simp add: writeVaruint32_def)

lemma writeBytes_at:
  "writeBytes bs (writerAt pre post ss) = writerAt (pre @ bs) post ss"
  by (simp add: writeBytes_def insertAt_def writerAt_def)

lemma writeString_at:
  "writeString Str (writerAt pre post ss) = writerAt (pre @ bytes Str) post ss"
  by (simp add: writeString_def writeBytes_at)

lemma startSubsection_at_Cons:
  "startSubsection K (writerAt pre (b # post) ss)
   = writeULEB128 0 5 (writerAt (pre @ [b]) (post @ [K]) (Suc (length pre) # ss))"
  by (simp add: startSubsection_def writerAt_def)

lemma startSubsection_at_Nil:
  "startSubsection K (writerAt pre [] ss)
   = writeULEB128 0 5 (writerAt (pre @ [K]) [] (Suc (length pre) # ss))"
  by (simp add: startSubsection_def writerAt_def)

lemma closeSubsection_at:
  assumes "Off + length (encodeULEB128 (of_nat (length pre - Off)) 0) \<le> length pre"
  shows "closeSubsection (writerAt pre post (Off # ss))
         = Inr (writerAt (store pre Off (encodeULEB128 (of_nat (length pre - Off)) 0)) post ss)"
proof -
  define enc where "enc = encodeULEB128 (of_nat (length pre - Off)) 0"
  have le: "Off + length enc \<le> length pre"
    unfolding enc_def by (rule assms)
  then have a: "store (pre @ post) Off enc = store pre Off enc @ post"
    by (simp add: store_def)
  have b: "length (store pre Off enc) = length pre"
    using le by (simp add: store_def)
  have "closeSubsection (writerAt pre post (Off # ss))
        = Inr \<lparr>Buffer = store (pre @ post) Off enc, Subsections = ss, Cursor = length pre\<rparr>"
    unfolding enc_def
    by (simp add: closeSubsection_def bindF_def endSubsection_def insertULEB128_def writerAt_def
             del: of_nat_diff)
  with a b show ?thesis
    unfolding enc_def by (simp add: writerAt_def)
qed

lemma finalize_at: "finalize (writerAt pre post []) = Inr pre"
  by (simp add: finalize_def resize_def writerAt_def)


lemma length_resize: "length (resize n xs) = n"
  by (simp add: resize_def)

lemma take_resize: "k \<le> n \<Longrightarrow> k \<le> length xs \<Longrightarrow> take k (resize n xs) = take k xs"
  by (simp add: resize_def min_def)

lemma writeULEB128_wf: "wfWriter W \<Longrightarrow> wfWriter (writeULEB128 v p W)"
  by (simp add: wfWriter_def writeULEB128_def Let_def store_def length_resize)

lemma writeULEB128_written:
  "wfWriter W \<Longrightarrow> written (writeULEB128 v p W) = written W @ encodeULEB128 v p"
  by (simp add: wfWriter_def written_def writeULEB128_def Let_def store_def length_resize take_resize)

lemma writeString_wf: "wfWriter W \<Longrightarrow> wfWriter (writeString Str W)"
  by (simp add: wfWriter_def writeString_def writeBytes_def insertAt_def)

lemma writeString_written:
  "wfWriter W \<Longrightarrow> written (writeString Str W) = written W @ bytes Str"
  by (simp add: wfWriter_def written_def writeString_def writeBytes_def insertAt_def)

text \<open>What the loop over the segments writes: the raw bytes of each name, with no byte count.\<close>

lemma writeSegments_wf: "wfWriter W \<Longrightarrow> wfWriter (writeSegments Segs W)"
  by (induction Segs arbitrary: W) (simp_all add: writeULEB128_wf writeString_wf)

lemma writeSegments_written:
  "wfWriter W \<Longrightarrow> written (writeSegments Segs W) = written W @ concat (map segmentBytes Segs)"
  by (induction Segs arbitrary: W)
     (simp_all add: writeULEB128_wf writeString_wf writeULEB128_written writeString_written
        segmentBytes_def)

lemma finalizeLinking_empty_lists:
  assumes "WasmMetadataVersion \<le> 0x7fffffff"
    and "Symbols Obj = []" and "DataSegments Obj = []"
    and "InitFunctions (LinkingData Obj) = []" and "Comdats (LinkingData Obj) = []"
  shows "finalizeLinking WasmMetadataVersion Obj
         = Inr (encodeULEB128 (ucast WasmMetadataVersion) 0, Obj)"
  using assms
  by (simp add: finalizeLinking_def bindF_def writeSymbolTable_def writeSegmentInfo_def
        writeInitFunctions_def writeComdatInfo_def initialWriter_at writeVaruint32_at
        writeULEB128_at finalize_at)

lemma finalizeLinking_object:
  "finalizeLinking WasmMetadataVersion Obj = Inr (Bytes, Obj') \<Longrightarrow> Obj' = Obj"
  by (auto simp: finalizeLinking_def bindF_def split: sum.splits)

lemma Kind_DATA_cases:
  "WASM_SYMBOL_TYPE_DATA \<noteq> WASM_SYMBOL_TYPE_FUNCTION"
  "WASM_SYMBOL_TYPE_DATA \<noteq> WASM_SYMBOL_TYPE_GLOBAL"
  "WASM_SYMBOL_TYPE_DATA \<noteq> WASM_SYMBOL_TYPE_TAG"
  "WASM_SYMBOL_TYPE_DATA \<noteq> WASM_SYMBOL_TYPE_TABLE"
  by (simp_all add: WASM_SYMBOL_TYPE_DATA_def WASM_SYMBOL_TYPE_FUNCTION_def
        WASM_SYMBOL_TYPE_GLOBAL_def WASM_SYMBOL_TYPE_TAG_def WASM_SYMBOL_TYPE_TABLE_def)

lemma writeSymbol_Data_eq:
  assumes "Kind (Info Sym) = WASM_SYMBOL_TYPE_DATA"
  shows "writeSymbol Sym W =
           Inr (let W3 = writeString (SymName (Info Sym))
                           (writeULEB128 (ucast (Flags (Info Sym))) 0
                             (writeULEB128 (ucast (Kind (Info Sym))) 0 W))
                in if Flags (Info Sym) AND WASM_SYMBOL_UNDEFINED = 0
                   then writeULEB128 (Size (DataRef (Info Sym))) 0
                          (writeULEB128 (Offset (DataRef (Info Sym))) 0
                            (writeULEB128 (ucast (Segment (DataRef (Info Sym)))) 0 W3))
                   else W3)"
  using assms by (simp add: writeSymbol_def Let_def Kind_DATA_cases)

lemma writeSymbol_Data_written:
  assumes "Kind (Info Sym) = WASM_SYMBOL_TYPE_DATA" and "wfWriter W"
  shows "\<exists>W'. writeSymbol Sym W = Inr W' \<and> wfWriter W' \<and>
          written W' = written W
             @ encodeULEB128 (ucast (Kind (Info Sym))) 0
             @ encodeULEB128 (ucast (Flags (Info Sym))) 0
             @ bytes (SymName (Info Sym))
             @ (if Flags (Info Sym) AND WASM_SYMBOL_UNDEFINED = 0
                then encodeULEB128 (ucast (Segment (DataRef (Info Sym)))) 0
                     @ encodeULEB128 (Offset (DataRef (Info Sym))) 0
                     @ encodeULEB128 (Size (DataRef (Info Sym))) 0
                else [])"
  using assms(2)
  by (simp add: writeSymbol_Data_eq [OF assms(1)] Let_def writeULEB128_wf writeString_wf
        writeULEB128_written writeString_written)













lemma finalizeLinking_exSegment:
  "finalizeLinking 2 (exObject [] [] [exSegment])
   = Inr ([2, 0, 9, 0x80, 0x80, 0x80, 0] @ [1, 0x61, 0, 0], exObject [] [] [exSegment])"
  by (simp add: finalizeLinking_def exObject_def exSegment_def emptyObject_def bindF_def
     writeSymbolTable_def writeSegmentInfo_def writeInitFunctions_def writeComdatInfo_def
     initialWriter_at writeULEB128_at writeVaruint32_at writeBytes_at startSubsection_at_Cons
     closeSubsection_at finalize_at writeString_def bytes_def store_def
     encodeULEB128_0 encodeULEB128_1 encodeULEB128_2 encodeULEB128_9 encodeULEB128_0_5
     resize_Nil resize_Cons_numeral resize_Cons_Suc resize_0 replicate_numeral_conv
     WASM_SEGMENT_INFO_def)

lemma segmentInfoPayload_spec_exSegment:
  "segmentInfoPayload_spec [exSegment] = [1, 1, 0x61, 0, 0]"
  by (simp add: segmentInfoPayload_spec_def lengthPrefixedString_spec_def exSegment_def
        bytes_def encodeULEB128_0 encodeULEB128_1)



section \<open>The bytes that finalizeLinking returns\<close>



lemma Subsections_writeULEB128 [simp]: "Subsections (writeULEB128 v p W) = Subsections W"
  by (simp add: writeULEB128_def Let_def)

lemma Subsections_writeString [simp]: "Subsections (writeString Str W) = Subsections W"
  by (simp add: writeString_def writeBytes_def)





































section \<open>The claims about Object::removeSections\<close>

text \<open>
  C1 says that \<^verbatim>\<open>removeSections\<close> decreases the element index of a Function, Global,
  Tag, Table or Section symbol by the number of marked section indices below it. The code
  subtracts \<^verbatim>\<open>std::distance(MarkedSections.end(), Upper)\<close>, which is zero or negative
  (lemma \<open>renumber_MarkedSections\<close>): the index grows by the number of marked indices
  above it. With the sections \<open>[A, B]\<close>, the predicate "the name is B" and one Function
  symbol with element index 0, the index 1 is marked, no marked index is below 0, and the
  element index becomes 1 instead of staying 0.
\<close>

theorem removeSections_renumbers_upwards:
  "removeSections (\<lambda>S. Name S = ''B'')
     (exObject [exSection ''A'' None, exSection ''B'' None]
               [exSymbol WASM_SYMBOL_TYPE_FUNCTION 0 0] [])
   = Inr (exObject [exSection ''A'' None] [exSymbol WASM_SYMBOL_TYPE_FUNCTION 0 1] [])"
  by (simp add: removeSections_defs)

text \<open>
  C2 is the scenario with the sections \<open>[A, reloc.A, B]\<close>, where the relocation section
  of \<open>A\<close> is at index 1, one Function symbol with element index 2 and the predicate "the
  name is A". The indices 0 and 1 are marked. For the symbol \<open>Upper\<close> is the end iterator,
  line 79 leaves the element index at 2 (the scenario expects 0), and the loop of line 80
  then starts by reading \<^verbatim>\<open>*Upper\<close> through the end iterator: the call has no defined
  result.
\<close>

theorem removeSections_scenario:
  "removeSections (\<lambda>S. Name S = ''A'')
     (exObject [exSection ''A'' (Some 1), exSection ''reloc.A'' None, exSection ''B'' None]
               [exSymbol WASM_SYMBOL_TYPE_FUNCTION 0 2] [])
   = Inl EndIteratorDereferenced
   \<and> MarkedSections (\<lambda>S. Name S = ''A'')
        [exSection ''A'' (Some 1), exSection ''reloc.A'' None, exSection ''B'' None] = [0, 1]
   \<and> renumber [0, 1] 2 = 2"
  by (simp add: removeSections_defs)

text \<open>
  C3 says that a Section symbol is deleted exactly when its element index before the
  renumbering was marked. Lines 116 to 118 test the element index that line 100 has
  already changed. With the sections \<open>[X, A]\<close> and the predicate "the name is A" the
  Section symbol of \<open>X\<close> (element index 0, not marked) is renumbered to 1, found among
  the marked indices and deleted. With the sections \<open>[A, X, A]\<close> the Section symbol of
  the first \<open>A\<close> (element index 0, marked) is renumbered to 1, not found and kept.
\<close>

theorem removeSections_section_symbols:
  "removeSections (\<lambda>S. Name S = ''A'')
     (exObject [exSection ''X'' None, exSection ''A'' None]
               [exSymbol WASM_SYMBOL_TYPE_SECTION 0 0] [])
   = Inr (exObject [exSection ''X'' None] [] [])
   \<and> removeSections (\<lambda>S. Name S = ''A'')
        (exObject [exSection ''A'' None, exSection ''X'' None, exSection ''A'' None]
                  [exSymbol WASM_SYMBOL_TYPE_SECTION 0 0] [])
     = Inr (exObject [exSection ''X'' None] [exSymbol WASM_SYMBOL_TYPE_SECTION 0 1] [])"
  by (simp add: removeSections_defs)

text \<open>
  C8: when no section satisfies the predicate, no index is marked, \<^verbatim>\<open>removeSections\<close>
  returns at line 65 and the object is unchanged: header, sections, symbols, linking
  metadata and every other member are as before the call.
\<close>

theorem removeSections_no_match_unchanged:
  "\<forall>S \<in> set (OpaqueSections Obj). \<not> ToRemove S \<Longrightarrow> removeSections ToRemove Obj = Inr Obj"
  by (rule removeSections_no_match)

theorem removeSections_no_match_unchanged_witness:
  "removeSections (\<lambda>S. Name S = ''C'')
     (exObject [exSection ''A'' None, exSection ''B'' None]
               [exSymbol WASM_SYMBOL_TYPE_FUNCTION 0 1] [])
   = Inr (exObject [exSection ''A'' None, exSection ''B'' None]
                   [exSymbol WASM_SYMBOL_TYPE_FUNCTION 0 1] [])"
proof -
  have h: "\<forall>S \<in> set (OpaqueSections (exObject [exSection ''A'' None, exSection ''B'' None]
                                         [exSymbol WASM_SYMBOL_TYPE_FUNCTION 0 1] [])).
             \<not> Name S = ''C''"
    by (simp add: exObject_def exSection_def)
  show ?thesis
    by (rule removeSections_no_match_unchanged [of _ "\<lambda>S. Name S = ''C''", OF h])
qed

text \<open>
  C9: a second call of \<^verbatim>\<open>removeSections\<close> with the same predicate changes nothing. When
  the first call returns an object, no section of that object satisfies the predicate, and
  the second call returns the same object.
\<close>

theorem removeSections_idempotent:
  assumes "removeSections ToRemove Obj = Inr Obj'"
  shows "(\<forall>S \<in> set (OpaqueSections Obj'). \<not> ToRemove S)
         \<and> removeSections ToRemove Obj' = Inr Obj'"
  using removeSections_leaves_no_match [OF assms]
  by (simp add: removeSections_no_match)

theorem removeSections_idempotent_witness:
  "removeSections (\<lambda>S. Name S = ''B'')
     (exObject [exSection ''A'' None, exSection ''B'' None]
               [exSymbol WASM_SYMBOL_TYPE_FUNCTION 0 0] [])
   = Inr (exObject [exSection ''A'' None] [exSymbol WASM_SYMBOL_TYPE_FUNCTION 0 1] [])
   \<and> removeSections (\<lambda>S. Name S = ''B'')
        (exObject [exSection ''A'' None] [exSymbol WASM_SYMBOL_TYPE_FUNCTION 0 1] [])
     = Inr (exObject [exSection ''A'' None] [exSymbol WASM_SYMBOL_TYPE_FUNCTION 0 1] [])"
proof -
  have h: "removeSections (\<lambda>S. Name S = ''B'')
             (exObject [exSection ''A'' None, exSection ''B'' None]
                       [exSymbol WASM_SYMBOL_TYPE_FUNCTION 0 0] [])
           = Inr (exObject [exSection ''A'' None] [exSymbol WASM_SYMBOL_TYPE_FUNCTION 0 1] [])"
    by (simp add: removeSections_defs)
  from h removeSections_idempotent [OF h] show ?thesis by simp
qed

section \<open>The claims about the reader and the encoder\<close>

text \<open>
  C4 says that the Segment Info payload holds each segment name as a length-prefixed byte
  string. \<^verbatim>\<open>writeString\<close> writes the raw bytes of the name and no byte count (lemma
  \<open>writeSegments_written\<close>). For one segment named \<open>a\<close> with alignment 0 and flags 0 and
  the version 2 the encoder returns the version, a zero byte, the five bytes of the size
  field and then the payload \<open>1, 0x61, 0, 0\<close>, where the format of the spec has
  \<open>1, 1, 0x61, 0, 0\<close>.
\<close>

theorem finalizeLinking_segment_name_raw:
  "finalizeLinking 2 (exObject [] [] [exSegment])
   = Inr ([2, 0, 9, 0x80, 0x80, 0x80, 0, 1, 0x61, 0, 0], exObject [] [] [exSegment])
   \<and> segmentInfoPayload_spec [exSegment] = [1, 1, 0x61, 0, 0]"
  using finalizeLinking_exSegment segmentInfoPayload_spec_exSegment by simp

text \<open>
  C5 says that the reader copies the data segments of the decoded module into the object.
  \<^verbatim>\<open>create\<close> reserves capacity and copies through \<open>begin()\<close> of the still empty
  vector: for a module with one data segment the copy writes beyond the size of the
  vector.
\<close>

theorem create_dataSegments:
  "create sectionTypeToString (exModule [exSegment]) = Inl CopyBeyondSize"
  by (simp add: create_def exModule_def bindF_def copyDataSegments_def emptyObject_def)

text \<open>
  C6: for an object without symbols, data segments, init functions and comdats the
  encoder returns the unsigned varint encoding of the version constant and nothing else.
  The version constant is within the bound that \<^verbatim>\<open>writeVaruint32\<close> asserts.
\<close>

theorem finalizeLinking_empty:
  assumes "WasmMetadataVersion \<le> 0x7fffffff"
    and "Symbols Obj = []" and "DataSegments Obj = []"
    and "InitFunctions (LinkingData Obj) = []" and "Comdats (LinkingData Obj) = []"
  shows "finalizeLinking WasmMetadataVersion Obj
         = Inr (encodeULEB128 (ucast WasmMetadataVersion) 0, Obj)"
  using assms by (rule finalizeLinking_empty_lists)

theorem finalizeLinking_empty_witness:
  "finalizeLinking 2 emptyObject = Inr ([2], emptyObject)"
proof -
  have "finalizeLinking 2 emptyObject = Inr (encodeULEB128 (ucast (2 :: u32)) 0, emptyObject)"
    by (rule finalizeLinking_empty) (simp_all add: emptyObject_def)
  then show ?thesis by (simp add: encodeULEB128_2)
qed



text \<open>
  C10: \<^verbatim>\<open>finalizeLinking\<close> only reads the object: when it returns, the object (header,
  sections, symbols, linking metadata, data segments) is the one it was called on.
\<close>

theorem finalizeLinking_frame:
  "finalizeLinking WasmMetadataVersion Obj = Inr (Bytes, Obj') \<Longrightarrow> Obj' = Obj"
  by (rule finalizeLinking_object)

theorem finalizeLinking_frame_witness:
  "\<exists>Bytes Obj'. finalizeLinking 2 (exObject [] [] [exSegment]) = Inr (Bytes, Obj')
      \<and> Obj' = exObject [] [] [exSegment]"
proof -
  obtain Bytes Obj' where h: "finalizeLinking 2 (exObject [] [] [exSegment]) = Inr (Bytes, Obj')"
    using finalizeLinking_exSegment by blast
  from finalizeLinking_frame [OF h] h show ?thesis by blast
qed

end
